theory Spec2Isabelle
  imports Main "HOL-Library.Word"
begin

unbundle bit_operations_syntax

section \<open>SECS-II variable codec of secsgem.py\<close>

text \<open>
  The development embeds the variable codec (classes \<^verbatim>\<open>SecsVar\<close>, \<^verbatim>\<open>SecsVarList\<close>,
  \<^verbatim>\<open>SecsVarArray\<close>, \<^verbatim>\<open>SecsVarBinary\<close>, \<^verbatim>\<open>SecsVarBoolean\<close>, \<^verbatim>\<open>SecsVarString\<close>,
  \<^verbatim>\<open>SecsVarNumber\<close> and its eight integer subclasses), the HSMS session handler and the GEM
  handlers of \<^verbatim>\<open>secsgem.py\<close>.  Python exceptions are values of type \<open>error\<close>; a method that
  mutates \<^verbatim>\<open>self\<close> returns the updated object.  Python integers are \<open>int\<close>, a byte of a
  \<^verbatim>\<open>bytes\<close>/\<^verbatim>\<open>bytearray\<close> object is an \<open>8 word\<close>.  The float variants F4 and F8 are not
  embedded.
\<close>

subsection \<open>Errors and bytes\<close>

datatype error = ValueError | TypeError | KeyError | IndexError | StructError

type_synonym byte = "8 word"

text \<open>\<^verbatim>\<open>bytearray(iterable_of_ints)\<close>: every item must be in \<^verbatim>\<open>range(256)\<close>.\<close>

fun bytearray :: "int list \<Rightarrow> error + byte list" where
  "bytearray [] = Inr []"
| "bytearray (x # xs) =
     (if 0 \<le> x \<and> x < 256
      then (case bytearray xs of Inl e \<Rightarrow> Inl e | Inr bs \<Rightarrow> Inr (word_of_int x # bs))
      else Inl ValueError)"

subsection \<open>Item header (\<^verbatim>\<open>SecsVar.encode_item_header\<close>, \<^verbatim>\<open>SecsVar.decode_item_header\<close>)\<close>

definition encode_item_header :: "int \<Rightarrow> int \<Rightarrow> error + byte list" where
  "encode_item_header formatCode len =
     (if len < 0 then Inl ValueError
      else if len > 0xFFFFFF then Inl ValueError
      else if len > 0xFFFF then
        (let length_bytes = 3;
             format_byte = (push_bit 2 formatCode) OR length_bytes
         in bytearray [format_byte, drop_bit 16 (len AND 0xFF0000),
                       drop_bit 8 (len AND 0x00FF00), len AND 0x0000FF])
      else if len > 0xFF then
        (let length_bytes = 2;
             format_byte = (push_bit 2 formatCode) OR length_bytes
         in bytearray [format_byte, drop_bit 8 (len AND 0x00FF00), len AND 0x0000FF])
      else
        (let length_bytes = 1;
             format_byte = (push_bit 2 formatCode) OR length_bytes
         in bytearray [format_byte, len AND 0x0000FF]))"



subsection \<open>Big-endian integers\<close>

text \<open>The \<open>n\<close> big-endian bytes of \<open>L\<close>, most significant first; each byte is the low
  eight bits of \<open>L div 256^i\<close>, so a negative \<open>L\<close> comes out in two's complement.\<close>

fun be_bytes :: "nat \<Rightarrow> int \<Rightarrow> byte list" where
  "be_bytes 0 L = []"
| "be_bytes (Suc n) L = word_of_int (L div 256 ^ n) # be_bytes n L"


text \<open>The length-byte count as the specification words it: the smallest \<open>n\<close> in \<open>{1,2,3}\<close>
  with \<open>L < 2^(8n)\<close>.\<close>

definition smallest_nlen :: "int \<Rightarrow> nat" where
  "smallest_nlen L = (LEAST n. n \<in> {1, 2, 3} \<and> L < 2 ^ (8 * n))"

subsection \<open>Numeric variants (\<^verbatim>\<open>SecsVarI8\<close> ... \<^verbatim>\<open>SecsVarU4\<close>)\<close>

datatype numkind = I8 | I1 | I2 | I4 | U8 | U1 | U2 | U4

fun num_formatCode :: "numkind \<Rightarrow> int" where
  "num_formatCode I8 = 24"
| "num_formatCode I1 = 25"
| "num_formatCode I2 = 26"
| "num_formatCode I4 = 28"
| "num_formatCode U8 = 40"
| "num_formatCode U1 = 41"
| "num_formatCode U2 = 42"
| "num_formatCode U4 = 44"

fun num_min :: "numkind \<Rightarrow> int" where
  "num_min I8 = - 9223372036854775808"
| "num_min I1 = - 128"
| "num_min I2 = - 32768"
| "num_min I4 = - 2147483648"
| "num_min U8 = 0"
| "num_min U1 = 0"
| "num_min U2 = 0"
| "num_min U4 = 0"

fun num_max :: "numkind \<Rightarrow> int" where
  "num_max I8 = 9223372036854775807"
| "num_max I1 = 127"
| "num_max I2 = 32767"
| "num_max I4 = 2147483647"
| "num_max U8 = 18446744073709551615"
| "num_max U1 = 255"
| "num_max U2 = 65535"
| "num_max U4 = 4294967295"

fun num_bytes :: "numkind \<Rightarrow> nat" where
  "num_bytes I8 = 8"
| "num_bytes I1 = 1"
| "num_bytes I2 = 2"
| "num_bytes I4 = 4"
| "num_bytes U8 = 8"
| "num_bytes U1 = 1"
| "num_bytes U2 = 2"
| "num_bytes U4 = 4"

text \<open>The struct codes \<^verbatim>\<open>q b h l\<close> are signed, \<^verbatim>\<open>Q B H L\<close> unsigned.\<close>

fun num_signed :: "numkind \<Rightarrow> bool" where
  "num_signed I8 = True"
| "num_signed I1 = True"
| "num_signed I2 = True"
| "num_signed I4 = True"
| "num_signed U8 = False"
| "num_signed U1 = False"
| "num_signed U2 = False"
| "num_signed U4 = False"



subsection \<open>Python values handed to \<^verbatim>\<open>set\<close>\<close>

text \<open>The arguments of \<^verbatim>\<open>set\<close> that the embedding covers: booleans, integers, lists and
  dictionaries with string keys (in iteration order).  Strings, bytes and floats as arguments of
  \<^verbatim>\<open>set\<close> are outside the embedding.\<close>

datatype pyval = PyBool bool | PyInt int | PyList "pyval list" | PyDict "(string \<times> pyval) list"

text \<open>The builtin \<^verbatim>\<open>int(x)\<close>, the \<^verbatim>\<open>_basetype\<close> of the integer variants.\<close>

fun py_int :: "pyval \<Rightarrow> error + int" where
  "py_int (PyBool b) = Inr (if b then 1 else 0)"
| "py_int (PyInt i) = Inr i"
| "py_int (PyList xs) = Inl TypeError"
| "py_int (PyDict kvs) = Inl TypeError"

text \<open>The builtin \<^verbatim>\<open>str(x)\<close> on integers and booleans.\<close>

fun str_nat :: "nat \<Rightarrow> string" where
  "str_nat n = (if n < 10 then [char_of (48 + n)]
                else str_nat (n div 10) @ [char_of (48 + n mod 10)])"

declare str_nat.simps [simp del]

definition str_int :: "int \<Rightarrow> string" where
  "str_int i = (if i < 0 then CHR ''-'' # str_nat (nat (- i)) else str_nat (nat i))"

text \<open>\<^verbatim>\<open>bytearray(value)\<close> on a list of Python values.\<close>

fun bytearray_items :: "pyval list \<Rightarrow> error + byte list" where
  "bytearray_items [] = Inr []"
| "bytearray_items (PyInt i # xs) =
     (if 0 \<le> i \<and> i < 256
      then (case bytearray_items xs of Inl e \<Rightarrow> Inl e | Inr bs \<Rightarrow> Inr (word_of_int i # bs))
      else Inl ValueError)"
| "bytearray_items (PyBool b # xs) =
     (case bytearray_items xs of Inl e \<Rightarrow> Inl e | Inr bs \<Rightarrow> Inr ((if b then 1 else 0) # bs))"
| "bytearray_items (x # xs) = Inl TypeError"


definition latin1_decode :: "byte list \<Rightarrow> string" where
  "latin1_decode bs = map (\<lambda>b. char_of (unat b)) bs"

subsection \<open>Data formats and variables\<close>

text \<open>A data format is what \<^verbatim>\<open>SecsVar.generate\<close> receives: a list literal whose items are
  name strings or data formats, or a data-item class (a \<^verbatim>\<open>DataItemBase\<close> subclass, given
  by its name, its \<^verbatim>\<open>__type__\<close> and its \<^verbatim>\<open>__count__\<close>).  Data items of type
  \<^verbatim>\<open>SecsVarDynamic\<close> are outside the embedding.\<close>

datatype itemtype = TBinary | TBoolean | TString | TNumber numkind

datatype dataformat = DName string | DList "dataformat list" | DItem string itemtype int

text \<open>A variable object: the fields of a list are the \<^verbatim>\<open>OrderedDict\<close> \<^verbatim>\<open>self.data\<close>; an array
  holds \<^verbatim>\<open>item_decriptor\<close>, \<^verbatim>\<open>count\<close> and \<^verbatim>\<open>data\<close>; the others \<^verbatim>\<open>count\<close> and
  \<^verbatim>\<open>value\<close>.\<close>

datatype secsvar =
    SecsVarList "(string \<times> secsvar) list"
  | SecsVarArray dataformat int "secsvar list"
  | SecsVarBinary int "byte list"
  | SecsVarBoolean int "bool list"
  | SecsVarString int string
  | SecsVarNumber numkind int "int list"

fun formatCode :: "secsvar \<Rightarrow> int" where
  "formatCode (SecsVarList fs) = 0"
| "formatCode (SecsVarArray d c xs) = 0"
| "formatCode (SecsVarBinary c v) = 8"
| "formatCode (SecsVarBoolean c v) = 9"
| "formatCode (SecsVarString c v) = 16"
| "formatCode (SecsVarNumber k c v) = num_formatCode k"

text \<open>\<^verbatim>\<open>d[k] = v\<close> on an \<^verbatim>\<open>OrderedDict\<close>: an existing key keeps its place.\<close>

fun odict_set :: "(string \<times> 'a) list \<Rightarrow> string \<Rightarrow> 'a \<Rightarrow> (string \<times> 'a) list" where
  "odict_set [] k v = [(k, v)]"
| "odict_set ((k', v') # kvs) k v =
     (if k' = k then (k, v) # kvs else (k', v') # odict_set kvs k v)"

fun get_name_from_format :: "dataformat list \<Rightarrow> error + string" where
  "get_name_from_format [] = Inl IndexError"
| "get_name_from_format (DName s # fs) = Inr s"
| "get_name_from_format (f # fs) = Inr ''DATA''"

text \<open>The \<^verbatim>\<open>name\<close> that \<^verbatim>\<open>SecsVarArray.__init__\<close> computes from its data format.\<close>

fun array_name :: "dataformat \<Rightarrow> error + string" where
  "array_name (DList fs) = get_name_from_format fs"
| "array_name (DItem n t c) = Inr n"
| "array_name (DName s) = Inr ''UNKNOWN''"

text \<open>The key under which \<^verbatim>\<open>SecsVarList._generate\<close> files a generated item.\<close>

fun item_key :: "dataformat \<Rightarrow> secsvar \<Rightarrow> error + string" where
  "item_key item (SecsVarArray d c xs) = array_name d"
| "item_key (DList fs) (SecsVarList data) = get_name_from_format fs"
| "item_key (DItem n t c) itemvalue = Inr n"
| "item_key item itemvalue = Inl TypeError"

text \<open>\<^verbatim>\<open>SecsVar.generate\<close> with the constructors it calls (no initial value) and the loop of
  \<^verbatim>\<open>SecsVarList._generate\<close>.\<close>

fun generate :: "dataformat \<Rightarrow> error + secsvar"
  and generate_items ::
    "dataformat list \<Rightarrow> (string \<times> secsvar) list \<Rightarrow> error + (string \<times> secsvar) list" where
  "generate (DName s) = Inl TypeError"
| "generate (DItem n TBinary c) = Inr (SecsVarBinary c [])"
| "generate (DItem n TBoolean c) = Inr (SecsVarBoolean c [])"
| "generate (DItem n TString c) = Inr (SecsVarString c [])"
| "generate (DItem n (TNumber k) c) = Inr (SecsVarNumber k c [])"
| "generate (DList [f]) =
     (case array_name f of Inl e \<Rightarrow> Inl e | Inr name \<Rightarrow> Inr (SecsVarArray f (- 1) []))"
| "generate (DList fs) =
     (case generate_items fs [] of Inl e \<Rightarrow> Inl e | Inr data \<Rightarrow> Inr (SecsVarList data))"
| "generate_items [] result_data = Inr result_data"
| "generate_items (DName s # items) result_data = generate_items items result_data"
| "generate_items (item # items) result_data =
     (case generate item of
        Inl e \<Rightarrow> Inl e
      | Inr itemvalue \<Rightarrow>
          (case item_key item itemvalue of
             Inl e \<Rightarrow> Inl e
           | Inr key \<Rightarrow> generate_items items (odict_set result_data key itemvalue)))"

subsection \<open>\<^verbatim>\<open>set\<close>\<close>

text \<open>\<^verbatim>\<open>SecsVarBinary.set\<close>.\<close>

definition SecsVarBinary_set :: "int \<Rightarrow> byte list \<Rightarrow> pyval \<Rightarrow> error + secsvar" where
  "SecsVarBinary_set count val v =
     (case (case v of
              PyList items \<Rightarrow> bytearray_items items
            | PyBool b \<Rightarrow> bytearray [if b then 1 else 0]
            | PyInt i \<Rightarrow> if 0 \<le> i \<and> i \<le> 255 then bytearray [i] else Inl ValueError
            | PyDict kvs \<Rightarrow> Inl TypeError) of
        Inl e \<Rightarrow> Inl e
      | Inr val' \<Rightarrow>
          if 0 < count \<and> count < int (length val') then Inl ValueError
          else Inr (SecsVarBinary count val'))"

text \<open>\<^verbatim>\<open>SecsVarBoolean.__convert_single_item\<close> and \<^verbatim>\<open>SecsVarBoolean.set\<close>.\<close>

fun convert_single_item :: "pyval \<Rightarrow> error + bool" where
  "convert_single_item (PyBool b) = Inr b"
| "convert_single_item (PyInt i) = (if \<not> (0 \<le> i \<and> i \<le> 1) then Inl ValueError else Inr (i \<noteq> 0))"
| "convert_single_item v = Inl ValueError"

fun convert_items :: "pyval list \<Rightarrow> error + bool list" where
  "convert_items [] = Inr []"
| "convert_items (item # items) =
     (case convert_single_item item of
        Inl e \<Rightarrow> Inl e
      | Inr b \<Rightarrow> (case convert_items items of Inl e \<Rightarrow> Inl e | Inr bs \<Rightarrow> Inr (b # bs)))"

definition SecsVarBoolean_set :: "int \<Rightarrow> bool list \<Rightarrow> pyval \<Rightarrow> error + secsvar" where
  "SecsVarBoolean_set count val v =
     (case v of
        PyList items \<Rightarrow>
          if 0 \<le> count \<and> count < int (length items) then Inl ValueError
          else (case convert_items items of
                  Inl e \<Rightarrow> Inl e
                | Inr new_value \<Rightarrow> Inr (SecsVarBoolean count new_value))
      | _ \<Rightarrow>
          (case convert_single_item v of
             Inl e \<Rightarrow> Inl e
           | Inr b \<Rightarrow> Inr (SecsVarBoolean count [b])))"

text \<open>\<^verbatim>\<open>SecsVarText.set\<close> for \<^verbatim>\<open>SecsVarString\<close>.\<close>

definition SecsVarString_set :: "int \<Rightarrow> string \<Rightarrow> pyval \<Rightarrow> error + secsvar" where
  "SecsVarString_set count val v =
     (case (case v of
              PyList items \<Rightarrow>
                (case bytearray_items items of Inl e \<Rightarrow> Inl e | Inr bs \<Rightarrow> Inr (latin1_decode bs))
            | PyBool b \<Rightarrow> Inr (if b then ''True'' else ''False'')
            | PyInt i \<Rightarrow> Inr (str_int i)
            | PyDict kvs \<Rightarrow> Inl TypeError) of
        Inl e \<Rightarrow> Inl e
      | Inr val' \<Rightarrow>
          if 0 < count \<and> count < int (length val') then Inl ValueError
          else Inr (SecsVarString count val'))"

text \<open>\<^verbatim>\<open>SecsVarNumber.set\<close>: the loop over a list value, then the method.\<close>

fun number_items :: "numkind \<Rightarrow> pyval list \<Rightarrow> error + int list" where
  "number_items k [] = Inr []"
| "number_items k (item # items) =
     (case py_int item of
        Inl e \<Rightarrow> Inl e
      | Inr i \<Rightarrow>
          if i < num_min k \<or> i > num_max k then Inl ValueError
          else (case number_items k items of Inl e \<Rightarrow> Inl e | Inr new_list \<Rightarrow> Inr (i # new_list)))"

definition SecsVarNumber_set :: "numkind \<Rightarrow> int \<Rightarrow> int list \<Rightarrow> pyval \<Rightarrow> error + secsvar" where
  "SecsVarNumber_set k count val v =
     (case v of
        PyList items \<Rightarrow>
          if 0 \<le> count \<and> count < int (length items) then Inl ValueError
          else (case number_items k items of
                  Inl e \<Rightarrow> Inl e
                | Inr new_list \<Rightarrow> Inr (SecsVarNumber k count new_list))
      | _ \<Rightarrow>
          (case py_int v of
             Inl e \<Rightarrow> Inl e
           | Inr new_value \<Rightarrow>
               if new_value < num_min k \<or> new_value > num_max k then Inl ValueError
               else Inr (SecsVarNumber k count [new_value])))"

text \<open>\<^verbatim>\<open>set\<close> of every variant.  \<open>set_positional\<close> is the loop of \<^verbatim>\<open>SecsVarList.set\<close> over a
  list value (field \<open>counter\<close> of \<^verbatim>\<open>self.data\<close> receives item \<open>counter\<close>), \<open>set_by_name\<close> the
  loop over a dictionary value, \<open>set_items\<close> the loop of \<^verbatim>\<open>SecsVarArray.set\<close>.\<close>

fun SecsVar_set :: "secsvar \<Rightarrow> pyval \<Rightarrow> error + secsvar"
  and set_positional ::
    "(string \<times> secsvar) list \<Rightarrow> pyval list \<Rightarrow> error + (string \<times> secsvar) list"
  and set_by_name ::
    "(string \<times> secsvar) list \<Rightarrow> (string \<times> pyval) list \<Rightarrow> error + (string \<times> secsvar) list"
  and set_items :: "dataformat \<Rightarrow> pyval list \<Rightarrow> error + secsvar list" where
  "SecsVar_set (SecsVarList data) (PyDict kvs) =
     (case set_by_name data kvs of Inl e \<Rightarrow> Inl e | Inr data' \<Rightarrow> Inr (SecsVarList data'))"
| "SecsVar_set (SecsVarList data) (PyList vs) =
     (if length vs > length data then Inl ValueError
      else (case set_positional data vs of
              Inl e \<Rightarrow> Inl e
            | Inr data' \<Rightarrow> Inr (SecsVarList data')))"
| "SecsVar_set (SecsVarList data) v = Inl ValueError"
| "SecsVar_set (SecsVarArray d count xs) (PyList vs) =
     (if count \<ge> 0 \<and> int (length vs) \<noteq> count then Inl ValueError
      else (case set_items d vs of
              Inl e \<Rightarrow> Inl e
            | Inr xs' \<Rightarrow> Inr (SecsVarArray d count xs')))"
| "SecsVar_set (SecsVarArray d count xs) v = Inl ValueError"
| "SecsVar_set (SecsVarBinary count val) v = SecsVarBinary_set count val v"
| "SecsVar_set (SecsVarBoolean count val) v = SecsVarBoolean_set count val v"
| "SecsVar_set (SecsVarString count val) v = SecsVarString_set count val v"
| "SecsVar_set (SecsVarNumber k count val) v = SecsVarNumber_set k count val v"
| "set_positional data [] = Inr data"
| "set_positional [] (itemvalue # vs) = Inl IndexError"
| "set_positional ((name, child) # data) (itemvalue # vs) =
     (case SecsVar_set child itemvalue of
        Inl e \<Rightarrow> Inl e
      | Inr child' \<Rightarrow>
          (case set_positional data vs of
             Inl e \<Rightarrow> Inl e
           | Inr data' \<Rightarrow> Inr ((name, child') # data')))"
| "set_by_name data [] = Inr data"
| "set_by_name data ((field_name, fv) # kvs) =
     (case map_of data field_name of
        None \<Rightarrow> Inl KeyError
      | Some child \<Rightarrow>
          (case SecsVar_set child fv of
             Inl e \<Rightarrow> Inl e
           | Inr child' \<Rightarrow> set_by_name (odict_set data field_name child') kvs))"
| "set_items d [] = Inr []"
| "set_items d (item # vs) =
     (case generate d of
        Inl e \<Rightarrow> Inl e
      | Inr new_object \<Rightarrow>
          (case SecsVar_set new_object item of
             Inl e \<Rightarrow> Inl e
           | Inr new_object' \<Rightarrow>
               (case set_items d vs of Inl e \<Rightarrow> Inl e | Inr xs \<Rightarrow> Inr (new_object' # xs))))"

subsection \<open>\<^verbatim>\<open>encode\<close>\<close>



subsection \<open>\<^verbatim>\<open>decode\<close>\<close>

text \<open>A slice \<^verbatim>\<open>data[a:a + n]\<close>: shorter than \<open>n\<close> when the data ends early.\<close>

definition slice :: "byte list \<Rightarrow> nat \<Rightarrow> nat \<Rightarrow> byte list" where
  "slice data a n = take n (drop a data)"













text \<open>The object as its constructor leaves it when no value is passed: the target that a
  receiver decodes into.\<close>

fun fresh :: "secsvar \<Rightarrow> secsvar" and fresh_fields :: "(string \<times> secsvar) list \<Rightarrow> (string \<times> secsvar) list" where
  "fresh (SecsVarList data) = SecsVarList (fresh_fields data)"
| "fresh (SecsVarArray d count xs) = SecsVarArray d count []"
| "fresh (SecsVarBinary count val) = SecsVarBinary count []"
| "fresh (SecsVarBoolean count val) = SecsVarBoolean count []"
| "fresh (SecsVarString count val) = SecsVarString count []"
| "fresh (SecsVarNumber k count val) = SecsVarNumber k count []"
| "fresh_fields [] = []"
| "fresh_fields ((n, x) # data) = (n, fresh x) # fresh_fields data"

subsection \<open>Valid values\<close>



section \<open>HSMS session handler (\<^verbatim>\<open>HsmsHeader\<close>, \<^verbatim>\<open>HsmsPacket\<close>, \<^verbatim>\<open>HsmsHandler\<close>)\<close>

record HsmsHeader =
  sessionID :: int
  requireResponse :: bool
  stream :: int
  func :: int
  pType :: int
  sType :: int
  system :: int

record HsmsPacket =
  header :: HsmsHeader
  packet_data :: "byte list"

text \<open>Field \<open>func\<close> is the header's \<^verbatim>\<open>function\<close>, field \<open>packet_data\<close> the packet's
  \<^verbatim>\<open>data\<close>.  The header constructors that the
  handler uses:\<close>

definition HsmsSelectRspHeader :: "int \<Rightarrow> HsmsHeader" where
  "HsmsSelectRspHeader sys =
     \<lparr>sessionID = 0xFFFF, requireResponse = False, stream = 0, func = 0, pType = 0,
      sType = 2, system = sys\<rparr>"

definition HsmsDeselectRspHeader :: "int \<Rightarrow> HsmsHeader" where
  "HsmsDeselectRspHeader sys =
     \<lparr>sessionID = 0xFFFF, requireResponse = False, stream = 0, func = 0, pType = 0,
      sType = 4, system = sys\<rparr>"

definition HsmsLinktestRspHeader :: "int \<Rightarrow> HsmsHeader" where
  "HsmsLinktestRspHeader sys =
     \<lparr>sessionID = 0xFFFF, requireResponse = False, stream = 0, func = 0, pType = 0,
      sType = 6, system = sys\<rparr>"

definition HsmsRejectReqHeader :: "int \<Rightarrow> int \<Rightarrow> int \<Rightarrow> HsmsHeader" where
  "HsmsRejectReqHeader sys s_type reason =
     \<lparr>sessionID = 0xFFFF, requireResponse = False, stream = s_type, func = reason,
      pType = 0, sType = 7, system = sys\<rparr>"

definition HsmsStreamFunctionHeader :: "int \<Rightarrow> int \<Rightarrow> int \<Rightarrow> bool \<Rightarrow> int \<Rightarrow> HsmsHeader" where
  "HsmsStreamFunctionHeader sys strm fn require_response session_id =
     \<lparr>sessionID = session_id, requireResponse = require_response, stream = strm,
      func = fn, pType = 0, sType = 0, system = sys\<rparr>"

text \<open>The connection as the handler sees it: \<^verbatim>\<open>send_packet\<close> returns \<^verbatim>\<open>False\<close> when the socket
  raises, otherwise the packet is on the wire (\<open>sent\<close>, in order); \<^verbatim>\<open>disconnecting\<close> is the
  connection's flag.\<close>

record HsmsConnection =
  socket_ok :: bool
  sent :: "HsmsPacket list"
  disconnecting :: bool

definition send_packet :: "HsmsConnection \<Rightarrow> HsmsPacket \<Rightarrow> bool \<times> HsmsConnection" where
  "send_packet c p = (if socket_ok c then (True, c\<lparr>sent := sent c @ [p]\<rparr>) else (False, c))"

text \<open>The handler.  \<open>systemQueues\<close> is \<^verbatim>\<open>_systemQueues\<close>, each queue given by its contents;
  \<open>has_packet_hook\<close> says whether the object has a method \<^verbatim>\<open>_on_hsms_packet_received\<close> (the
  subclasses do) and \<open>hook_calls\<close> lists the packets handed to it; \<open>selected_events\<close> counts the
  calls of \<^verbatim>\<open>_on_state_select\<close>.  Trace logging is left out, and with it the call of
  \<^verbatim>\<open>secs_decode\<close> that only builds a log line (on an undecodable payload that call raises
  before any branch of \<^verbatim>\<open>on_connection_packet_received\<close> is taken).\<close>

record HsmsHandler =
  systemCounter :: int
  systemQueues :: "int \<rightharpoonup> HsmsPacket list"
  is_connected :: bool
  is_selected :: bool
  handler_sessionID :: int
  connection :: HsmsConnection
  has_packet_hook :: bool
  hook_calls :: "HsmsPacket list"
  selected_events :: nat


definition handler_send :: "HsmsHandler \<Rightarrow> HsmsPacket \<Rightarrow> bool \<times> HsmsHandler" where
  "handler_send h p = (let (ok, c) = send_packet (connection h) p in (ok, h\<lparr>connection := c\<rparr>))"

text \<open>\<^verbatim>\<open>queue.put_nowait\<close> on the queue registered for a system id.\<close>

definition put_nowait :: "HsmsHandler \<Rightarrow> int \<Rightarrow> HsmsPacket \<Rightarrow> HsmsHandler" where
  "put_nowait h sys p =
     (case systemQueues h sys of
        None \<Rightarrow> h
      | Some q \<Rightarrow> h\<lparr>systemQueues := (systemQueues h)(sys \<mapsto> q @ [p])\<rparr>)"

definition on_state_select :: "HsmsHandler \<Rightarrow> HsmsHandler" where
  "on_state_select h = h\<lparr>selected_events := selected_events h + 1\<rparr>"

text \<open>\<^verbatim>\<open>HsmsHandler.__handle_hsms_requests\<close>.\<close>

definition handle_hsms_requests :: "HsmsHandler \<Rightarrow> HsmsPacket \<Rightarrow> HsmsHandler" where
  "handle_hsms_requests h packet =
     (let hd = header packet in
      if sType hd = 1 then
        (if disconnecting (connection h)
         then snd (handler_send h \<lparr>header = HsmsRejectReqHeader (system hd) (sType hd) 4, packet_data = []\<rparr>)
         else on_state_select
                ((snd (handler_send h \<lparr>header = HsmsSelectRspHeader (system hd), packet_data = []\<rparr>))
                   \<lparr>is_selected := True\<rparr>))
      else if sType hd = 2 then
        (let h' = on_state_select (h\<lparr>is_selected := True\<rparr>)
         in if system hd \<in> dom (systemQueues h') then put_nowait h' (system hd) packet else h')
      else if sType hd = 3 then
        (if disconnecting (connection h)
         then snd (handler_send h \<lparr>header = HsmsRejectReqHeader (system hd) (sType hd) 4, packet_data = []\<rparr>)
         else (snd (handler_send h \<lparr>header = HsmsDeselectRspHeader (system hd), packet_data = []\<rparr>))
                \<lparr>is_selected := False\<rparr>)
      else if sType hd = 4 then
        (let h' = h\<lparr>is_selected := False\<rparr>
         in if system hd \<in> dom (systemQueues h') then put_nowait h' (system hd) packet else h')
      else if sType hd = 5 then
        (if disconnecting (connection h)
         then snd (handler_send h \<lparr>header = HsmsRejectReqHeader (system hd) (sType hd) 4, packet_data = []\<rparr>)
         else snd (handler_send h \<lparr>header = HsmsLinktestRspHeader (system hd), packet_data = []\<rparr>))
      else
        (if system hd \<in> dom (systemQueues h) then put_nowait h (system hd) packet else h))"

text \<open>\<^verbatim>\<open>HsmsHandler.on_connection_packet_received\<close>.\<close>

definition on_connection_packet_received :: "HsmsHandler \<Rightarrow> HsmsPacket \<Rightarrow> HsmsHandler" where
  "on_connection_packet_received h packet =
     (if sType (header packet) > 0 then handle_hsms_requests h packet
      else if \<not> is_connected h \<and> \<not> is_selected h then
        (let out_packet =
               \<lparr>header = HsmsRejectReqHeader (system (header packet)) (sType (header packet)) 4,
                packet_data = []\<rparr>
         in snd (handler_send h out_packet))
      else if system (header packet) \<in> dom (systemQueues h) then
        put_nowait h (system (header packet)) packet
      else if has_packet_hook h then h\<lparr>hook_calls := hook_calls h @ [packet]\<rparr>
      else h)"






section \<open>GEM communication state (\<^verbatim>\<open>Fysom\<close>, \<^verbatim>\<open>GemHandler\<close>)\<close>

datatype comm_state =
    NONE | DISABLED | ENABLED | NOT_COMMUNICATING | COMMUNICATING
  | EQUIPMENT_INITIATED_CONNECT | WAIT_DELAY | WAIT_CRA | HOST_INITIATED_CONNECT
  | WAIT_CR_FROM_HOST




fun autoforward :: "comm_state \<Rightarrow> comm_state option" where
  "autoforward ENABLED = Some NOT_COMMUNICATING"
| "autoforward EQUIPMENT_INITIATED_CONNECT = Some WAIT_CRA"
| "autoforward HOST_INITIATED_CONNECT = Some WAIT_CR_FROM_HOST"
| "autoforward s = None"

text \<open>The messages a GEM handler sends, as far as the communication state machine is
  concerned: S1F13 with its list, S1F14 with COMMACK and the MDLN list.\<close>

datatype secs_function = SecsS01F13 "string list" | SecsS01F14 int "string list"

text \<open>The handler: \<open>responses\<close> are the calls of \<^verbatim>\<open>send_response\<close> (function, system),
  \<open>requests\<close> those of \<^verbatim>\<open>send_stream_function\<close>, \<open>callback_threads\<close> the packets for which a
  \<^verbatim>\<open>_handle_stream_function\<close> thread was started, the two timers are given by whether they are
  armed, \<open>communicating_fired\<close> counts the \<^verbatim>\<open>handler_communicating\<close> events and \<open>commack\<close> is what
  \<^verbatim>\<open>on_commack_requested\<close> returns.\<close>

record GemHandler =
  communicationState :: comm_state
  isHost :: bool
  MDLN :: string
  SOFTREV :: string
  commack :: int
  waitCRATimer :: bool
  commDelayTimer :: bool
  responses :: "(secs_function \<times> int) list"
  requests :: "secs_function list"
  callback_threads :: "HsmsPacket list"
  communicating_fired :: nat

text \<open>The callbacks registered in the configuration: \<^verbatim>\<open>onleaveWAIT_CRA\<close>,
  \<^verbatim>\<open>onleaveWAIT_DELAY\<close>, and \<^verbatim>\<open>onWAIT_CRA\<close>, \<^verbatim>\<open>onWAIT_DELAY\<close>, \<^verbatim>\<open>onCOMMUNICATING\<close>.\<close>

fun leave_state :: "GemHandler \<Rightarrow> comm_state \<Rightarrow> GemHandler" where
  "leave_state g WAIT_CRA = g\<lparr>waitCRATimer := False\<rparr>"
| "leave_state g WAIT_DELAY = g\<lparr>commDelayTimer := False\<rparr>"
| "leave_state g s = g"

fun enter_state :: "GemHandler \<Rightarrow> comm_state \<Rightarrow> GemHandler" where
  "enter_state g WAIT_CRA =
     g\<lparr>waitCRATimer := True,
       requests := requests g @ [if isHost g then SecsS01F13 [] else SecsS01F13 [MDLN g, SOFTREV g]]\<rparr>"
| "enter_state g WAIT_DELAY = g\<lparr>commDelayTimer := True\<rparr>"
| "enter_state g COMMUNICATING = g\<lparr>communicating_fired := communicating_fired g + 1\<rparr>"
| "enter_state g s = g"

text \<open>The loop of the event function built by \<^verbatim>\<open>Fysom._build_event\<close>: one transition, then
  the auto-forward transitions.\<close>

function transitions :: "GemHandler \<Rightarrow> comm_state \<Rightarrow> comm_state \<Rightarrow> GemHandler" where
  "transitions g src dst =
     (let g1 = (if communicationState g \<noteq> dst
                then enter_state ((leave_state g src)\<lparr>communicationState := dst\<rparr>) dst
                else leave_state g src)
      in if communicationState g1 = dst
         then (case autoforward dst of
                 None \<Rightarrow> g1
               | Some dst' \<Rightarrow> transitions g1 dst dst')
         else g1)"
  by pat_completeness auto

termination
  by (relation "measure (\<lambda>(g, src, dst). case autoforward dst of None \<Rightarrow> 0 | Some d \<Rightarrow> Suc 0)")
     (auto elim: autoforward.elims)



section \<open>Equipment constants (\<^verbatim>\<open>EquipmentConstant\<close>, \<^verbatim>\<open>GemEquipmentHandler._on_s02f15\<close>)\<close>

text \<open>Identifiers and values of equipment constants are integers here; \<open>ec_value\<close> is the
  attribute \<^verbatim>\<open>value\<close>.\<close>

record EquipmentConstant =
  ecid :: int
  min_value :: "int option"
  max_value :: "int option"
  default_value :: int
  use_callback :: bool
  ec_value :: int

record GemEquipmentHandler =
  equipment_constants :: "int \<rightharpoonup> EquipmentConstant"
  establishCommunicationTimeout :: int
  time_format :: int

definition ECID_ESTABLISH_COMMUNICATIONS_TIMEOUT :: int where
  "ECID_ESTABLISH_COMMUNICATIONS_TIMEOUT = 1"

definition ECID_TIME_FORMAT :: int where
  "ECID_TIME_FORMAT = 2"

text \<open>\<^verbatim>\<open>_set_ec_value\<close> on the constant registered under \<open>key\<close>; with \<^verbatim>\<open>use_callback\<close> the
  method \<^verbatim>\<open>on_ec_value_update\<close> of the class itself is called, which stores the value as
  well.\<close>

definition set_ec_value :: "GemEquipmentHandler \<Rightarrow> int \<Rightarrow> EquipmentConstant \<Rightarrow> int \<Rightarrow> GemEquipmentHandler" where
  "set_ec_value h key ec v =
     (let h1 = (if ecid ec = ECID_ESTABLISH_COMMUNICATIONS_TIMEOUT
                then h\<lparr>establishCommunicationTimeout := v\<rparr> else h);
          h2 = (if ecid ec = ECID_TIME_FORMAT then h1\<lparr>time_format := v\<rparr> else h1)
      in if use_callback ec
         then h2\<lparr>equipment_constants := (equipment_constants h2)(key \<mapsto> ec\<lparr>ec_value := v\<rparr>)\<rparr>
         else h2\<lparr>equipment_constants := (equipment_constants h2)(key \<mapsto> ec\<lparr>ec_value := v\<rparr>)\<rparr>)"

text \<open>The first loop of \<^verbatim>\<open>_on_s02f15\<close>, over the (ECID, ECV) items of the message.\<close>

fun eac_loop :: "GemEquipmentHandler \<Rightarrow> (int \<times> int) list \<Rightarrow> int \<Rightarrow> int" where
  "eac_loop h [] eac = eac"
| "eac_loop h ((ECID, ECV) # message) eac =
     (case equipment_constants h ECID of
        None \<Rightarrow> eac_loop h message 1
      | Some constant \<Rightarrow>
          (let eac1 = (case min_value constant of
                         None \<Rightarrow> eac
                       | Some mn \<Rightarrow> if ECV < mn then 3 else eac);
               eac2 = (case max_value constant of
                         None \<Rightarrow> eac1
                       | Some mx \<Rightarrow> if ECV > mx then 3 else eac1)
           in eac_loop h message eac2))"

text \<open>The second loop, which writes.\<close>

fun write_loop :: "GemEquipmentHandler \<Rightarrow> (int \<times> int) list \<Rightarrow> error + GemEquipmentHandler" where
  "write_loop h [] = Inr h"
| "write_loop h ((ECID, ECV) # message) =
     (case equipment_constants h ECID of
        None \<Rightarrow> Inl KeyError
      | Some ec \<Rightarrow> write_loop (set_ec_value h ECID ec ECV) message)"

text \<open>The handler returns the S2F16 reply, given here by its EAC.\<close>

definition on_s02f15 ::
  "GemEquipmentHandler \<Rightarrow> (int \<times> int) list \<Rightarrow> error + (GemEquipmentHandler \<times> int)" where
  "on_s02f15 h message =
     (let eac = eac_loop h message 0
      in if eac = 0
         then (case write_loop h message of Inl e \<Rightarrow> Inl e | Inr h' \<Rightarrow> Inr (h', eac))
         else Inr (h, eac))"

text \<open>What the claims about \<^verbatim>\<open>_on_s02f15\<close> speak of: an item whose ECID is not registered, and an
  item whose value lies strictly outside the bounds that its registered constant has.\<close>

definition unregistered :: "GemEquipmentHandler \<Rightarrow> int \<times> int \<Rightarrow> bool" where
  "unregistered h item = (equipment_constants h (fst item) = None)"

definition out_of_range :: "GemEquipmentHandler \<Rightarrow> int \<times> int \<Rightarrow> bool" where
  "out_of_range h item =
     (case equipment_constants h (fst item) of
        None \<Rightarrow> False
      | Some c \<Rightarrow>
          (case min_value c of None \<Rightarrow> False | Some mn \<Rightarrow> snd item < mn)
          \<or> (case max_value c of None \<Rightarrow> False | Some mx \<Rightarrow> snd item > mx))"

text \<open>The equipment constants that \<^verbatim>\<open>GemEquipmentHandler.__init__\<close> registers.\<close>

definition GemEquipmentHandler_init :: GemEquipmentHandler where
  "GemEquipmentHandler_init =
     \<lparr>equipment_constants =
        [ECID_ESTABLISH_COMMUNICATIONS_TIMEOUT \<mapsto>
           \<lparr>ecid = ECID_ESTABLISH_COMMUNICATIONS_TIMEOUT, min_value = Some 10,
            max_value = Some 120, default_value = 10, use_callback = True, ec_value = 10\<rparr>,
         ECID_TIME_FORMAT \<mapsto>
           \<lparr>ecid = ECID_TIME_FORMAT, min_value = Some 0, max_value = Some 2,
            default_value = 1, use_callback = True, ec_value = 1\<rparr>],
      establishCommunicationTimeout = 10,
      time_format = 1\<rparr>"

text \<open>The handlers as their constructors leave them.\<close>

definition HsmsHandler_init :: "int \<Rightarrow> bool \<Rightarrow> HsmsHandler" where
  "HsmsHandler_init session_id hook =
     \<lparr>systemCounter = 0, systemQueues = Map.empty, is_connected = False, is_selected = False,
      handler_sessionID = session_id,
      connection = \<lparr>socket_ok = True, sent = [], disconnecting = False\<rparr>,
      has_packet_hook = hook, hook_calls = [], selected_events = 0\<rparr>"


section \<open>Properties of the item header\<close>

lemma smallest_nlen_eq:
  "0 \<le> L \<Longrightarrow> L \<le> 0xFFFFFF \<Longrightarrow>
   smallest_nlen L = (if L \<le> 0xFF then 1 else if L \<le> 0xFFFF then 2 else 3)"
  unfolding smallest_nlen_def
  by (rule Least_equality) auto

lemma and_ff: "(L::int) AND 0xFF = L mod 256"
  using take_bit_eq_mask[of 8 L] by (simp add: take_bit_eq_mod mask_eq_exp_minus_1)

lemma and_ff00: "drop_bit 8 ((L::int) AND 0xFF00) = (L div 256) mod 256"
proof -
  have "drop_bit 8 (L AND 0xFF00) = drop_bit 8 L AND drop_bit 8 (0xFF00::int)"
    by (rule drop_bit_and)
  also have "drop_bit 8 (0xFF00::int) = 0xFF"
    by (simp add: drop_bit_eq_div)
  finally show ?thesis
    by (simp add: and_ff drop_bit_eq_div)
qed

lemma and_ff0000: "drop_bit 16 ((L::int) AND 0xFF0000) = (L div 65536) mod 256"
proof -
  have "drop_bit 16 (L AND 0xFF0000) = drop_bit 16 L AND drop_bit 16 (0xFF0000::int)"
    by (rule drop_bit_and)
  also have "drop_bit 16 (0xFF0000::int) = 0xFF"
    by (simp add: drop_bit_eq_div)
  finally show ?thesis
    by (simp add: and_ff drop_bit_eq_div)
qed

lemma format_byte_range:
  assumes "0 \<le> fc" "fc < 64" "0 \<le> n" "n < 4"
  shows "0 \<le> push_bit 2 fc OR (n::int)" "push_bit 2 fc OR n < 256"
proof -
  show "0 \<le> push_bit 2 fc OR n"
    using assms by simp
  have "push_bit 2 fc < 2 ^ 8"
    using assms by (simp add: push_bit_eq_mult)
  moreover have "n < 2 ^ 8"
    using assms by simp
  moreover have "0 \<le> push_bit 2 fc"
    using assms by simp
  ultimately have "push_bit 2 fc OR n < 2 ^ 8"
    using assms by (intro OR_upper) auto
  then show "push_bit 2 fc OR n < 256"
    by simp
qed

lemma word_of_int_mod256: "(word_of_int (x mod 256) :: byte) = word_of_int x"
  by (simp add: word_of_int_eq_iff take_bit_eq_mod)

lemma encode_item_header_ok:
  assumes "0 \<le> fc" "fc < 64" "0 \<le> L" "L \<le> 0xFFFFFF"
  shows "encode_item_header fc L =
           Inr (word_of_int (push_bit 2 fc OR int (if L \<le> 0xFF then 1 else if L \<le> 0xFFFF then 2 else 3))
                # be_bytes (if L \<le> 0xFF then 1 else if L \<le> 0xFFFF then 2 else 3) L)"
proof -
  have m: "0 \<le> L mod 256" "L mod 256 < 256" "0 \<le> L div 256 mod 256"
    "L div 256 mod 256 < 256" "0 \<le> L div 65536 mod 256" "L div 65536 mod 256 < 256"
    by simp_all
  note fb = format_byte_range[OF assms(1,2)]
  consider "L \<le> 0xFF" | "L > 0xFF" "L \<le> 0xFFFF" | "L > 0xFFFF"
    by linarith
  then show ?thesis
  proof cases
    case 1
    then show ?thesis
      using assms fb[of 1] m
      unfolding encode_item_header_def Let_def and_ff
      by (simp add: word_of_int_mod256)
  next
    case 2
    then show ?thesis
      using assms fb[of 2] m
      unfolding encode_item_header_def Let_def and_ff and_ff00
      by (simp add: word_of_int_mod256 numeral_2_eq_2)
  next
    case 3
    then show ?thesis
      using assms fb[of 3] m
      unfolding encode_item_header_def Let_def and_ff and_ff00 and_ff0000
      by (simp add: word_of_int_mod256 numeral_3_eq_3)
  qed
qed

text \<open>
  Claim C2.  For a variant's format code (six bits) and every payload length \<open>L\<close>: header
  encoding fails when \<open>L < 0\<close> or \<open>L > 0xFFFFFF\<close>; otherwise it emits the byte
  \<open>(format_code << 2) | n\<close> followed by the \<open>n\<close> big-endian bytes of \<open>L\<close>, where \<open>n\<close> is the
  smallest of 1, 2, 3 with \<open>L < 2^(8n)\<close>.  The lengths 255, 256, 65535, 65536 and 16777215
  select \<open>n\<close> = 1, 2, 2, 3, 3.
\<close>

theorem encode_item_header_claim:
  assumes "0 \<le> fc" and "fc < 64"
  shows "(L < 0 \<or> L > 0xFFFFFF \<longrightarrow> encode_item_header fc L = Inl ValueError)
       \<and> (0 \<le> L \<and> L \<le> 0xFFFFFF \<longrightarrow>
            encode_item_header fc L =
              Inr (word_of_int (push_bit 2 fc OR int (smallest_nlen L))
                   # be_bytes (smallest_nlen L) L))
       \<and> smallest_nlen 255 = 1 \<and> smallest_nlen 256 = 2 \<and> smallest_nlen 65535 = 2
       \<and> smallest_nlen 65536 = 3 \<and> smallest_nlen 16777215 = 3"
proof -
  have fail: "L < 0 \<or> L > 0xFFFFFF \<Longrightarrow> encode_item_header fc L = Inl ValueError"
    by (auto simp: encode_item_header_def)
  have ok: "encode_item_header fc L =
              Inr (word_of_int (push_bit 2 fc OR int (smallest_nlen L))
                   # be_bytes (smallest_nlen L) L)" if "0 \<le> L" "L \<le> 0xFFFFFF"
    using encode_item_header_ok[OF assms that] that by (simp add: smallest_nlen_eq)
  show ?thesis
    using fail ok by (simp add: smallest_nlen_eq)
qed

theorem encode_item_header_claim_witness:
  "(0::int) \<le> 8 \<and> (8::int) < 64 \<and> encode_item_header 8 (- 1) = Inl ValueError
   \<and> encode_item_header 8 256 = Inr [34, 1, 0]"
  using encode_item_header_claim[of 8 "- 1"] encode_item_header_claim[of 8 256]
  by (simp add: encode_item_header_def)

section \<open>Big-endian integers and the header round trip\<close>
















section \<open>Properties of \<^verbatim>\<open>set\<close>\<close>

text \<open>
  Claim C7.  For every integer variant (I1, I2, I4, I8, U1, U2, U4, U8) and every integer
  \<open>x\<close>, \<^verbatim>\<open>set(x)\<close> succeeds and stores \<open>x\<close> if and only if the variant's declared minimum
  \<open>\<le> x \<le>\<close> maximum, and fails with \<^verbatim>\<open>ValueError\<close> otherwise; the declared bounds are those
  of the variant's width.
\<close>

theorem SecsVarNumber_set_range:
  "SecsVar_set (SecsVarNumber k count val) (PyInt x) =
     (if num_min k \<le> x \<and> x \<le> num_max k then Inr (SecsVarNumber k count [x])
      else Inl ValueError)
   \<and> num_min k = (if num_signed k then - (2 ^ (8 * num_bytes k - 1)) else 0)
   \<and> num_max k = (if num_signed k then 2 ^ (8 * num_bytes k - 1) - 1 else 2 ^ (8 * num_bytes k) - 1)"
  by (cases k) (auto simp: SecsVarNumber_set_def)







section \<open>Properties of \<^verbatim>\<open>decode\<close>\<close>








section \<open>Properties of \<^verbatim>\<open>_on_s02f15\<close>\<close>

lemma eac_loop_Cons:
  "eac_loop h (it # msg) eac =
     eac_loop h msg (if unregistered h it then 1 else if out_of_range h it then 3 else eac)"
proof (cases it)
  case (Pair ECID ECV)
  show ?thesis
  proof (cases "equipment_constants h ECID")
    case None
    then show ?thesis
      by (simp add: Pair unregistered_def)
  next
    case (Some c)
    then show ?thesis
      by (cases "min_value c"; cases "max_value c")
         (simp_all add: Pair unregistered_def out_of_range_def Let_def)
  qed
qed



lemma eac_loop_1:
  "\<forall>it\<in>set msg. \<not> out_of_range h it \<Longrightarrow> (\<exists>it\<in>set msg. unregistered h it) \<or> eac = 1 \<Longrightarrow>
   eac_loop h msg eac = 1"
proof (induction msg arbitrary: eac)
  case Nil
  then show ?case by simp
next
  case (Cons it msg)
  show ?case
    unfolding eac_loop_Cons
    by (rule Cons.IH) (use Cons.prems in auto)
qed





lemma init_items:
  "out_of_range GemEquipmentHandler_init (1, 5)"
  "unregistered GemEquipmentHandler_init (99, 0)"
  "\<not> unregistered GemEquipmentHandler_init (1, v)"
  "\<not> out_of_range GemEquipmentHandler_init (1, 10)"
  "\<not> out_of_range GemEquipmentHandler_init (1, 120)"
  "\<not> out_of_range GemEquipmentHandler_init (99, v)"
  by (simp_all add: out_of_range_def unregistered_def GemEquipmentHandler_init_def
      ECID_ESTABLISH_COMMUNICATIONS_TIMEOUT_def ECID_TIME_FORMAT_def)



text \<open>
  Claim C10.  When some supplied ECID is not a registered equipment constant and no supplied
  value is out of range, \<^verbatim>\<open>_on_s02f15\<close> replies S2F16 with EAC 1 and writes nothing.
\<close>

theorem on_s02f15_unregistered:
  "(\<exists>it\<in>set msg. unregistered h it) \<and> (\<forall>it\<in>set msg. \<not> out_of_range h it) \<longrightarrow>
   on_s02f15 h msg = Inr (h, 1)"
  using eac_loop_1[of msg h 0] by (auto simp: on_s02f15_def Let_def)

theorem on_s02f15_unregistered_witness:
  "on_s02f15 GemEquipmentHandler_init [(1, 10), (99, 0)] = Inr (GemEquipmentHandler_init, 1)"
  using on_s02f15_unregistered[of "[(1, 10), (99, 0)]" GemEquipmentHandler_init] init_items
  by auto


section \<open>Properties of the GEM communication state\<close>

lemma transitions_to_COMMUNICATING:
  "communicationState g \<noteq> COMMUNICATING \<Longrightarrow>
   transitions g src COMMUNICATING =
     enter_state ((leave_state g src)\<lparr>communicationState := COMMUNICATING\<rparr>) COMMUNICATING"
  by (simp add: Let_def)

lemma leave_state_fields:
  "responses (leave_state g s) = responses g"
  "requests (leave_state g s) = requests g"
  "callback_threads (leave_state g s) = callback_threads g"
  by (cases s; simp)+




section \<open>Properties of the HSMS handler\<close>

lemma handler_send_ok:
  "socket_ok (connection h) \<Longrightarrow>
   handler_send h p = (True, h\<lparr>connection := (connection h)\<lparr>sent := sent (connection h) @ [p]\<rparr>\<rparr>)"
  by (simp add: handler_send_def send_packet_def)


lemma reject_when_disconnected:
  assumes "sType (header packet) = 0" "\<not> is_connected h" "\<not> is_selected h"
    "socket_ok (connection h)"
  shows "on_connection_packet_received h packet =
           h\<lparr>connection := (connection h)\<lparr>sent := sent (connection h) @
              [\<lparr>header = \<lparr>sessionID = 0xFFFF, requireResponse = False, stream = 0, func = 4,
                          pType = 0, sType = 7, system = system (header packet)\<rparr>,
                packet_data = []\<rparr>]\<rparr>\<rparr>"
  using assms
  by (simp add: on_connection_packet_received_def handler_send_ok HsmsRejectReqHeader_def Let_def)

text \<open>
  Claim C4 at a handler that is connected but not selected (the state between the TCP connect
  and the select response): an S1F1 data message is not answered with a Reject.req; it is
  handed on to \<^verbatim>\<open>_on_hsms_packet_received\<close>.  The branch that rejects is taken only when the
  handler is neither connected nor selected.
\<close>

theorem data_message_when_connected_not_selected:
  "\<not> is_selected ((HsmsHandler_init 0 True)\<lparr>is_connected := True\<rparr>)
   \<and> sType (header \<lparr>header = HsmsStreamFunctionHeader 7 1 1 True 0, packet_data = []\<rparr>) = 0
   \<and> on_connection_packet_received ((HsmsHandler_init 0 True)\<lparr>is_connected := True\<rparr>)
        \<lparr>header = HsmsStreamFunctionHeader 7 1 1 True 0, packet_data = []\<rparr>
      = (HsmsHandler_init 0 True)
          \<lparr>is_connected := True,
           hook_calls := [\<lparr>header = HsmsStreamFunctionHeader 7 1 1 True 0, packet_data = []\<rparr>]\<rparr>
   \<and> sent (connection (on_connection_packet_received
           ((HsmsHandler_init 0 True)\<lparr>is_connected := True\<rparr>)
           \<lparr>header = HsmsStreamFunctionHeader 7 1 1 True 0, packet_data = []\<rparr>)) = []"
  by (simp add: on_connection_packet_received_def HsmsHandler_init_def
      HsmsStreamFunctionHeader_def)












section \<open>The round trip of \<^verbatim>\<open>encode\<close> and \<^verbatim>\<open>decode\<close>\<close>



lemma slice_mid: "slice (pre @ bs @ post) (length pre) (length bs) = bs"
  by (simp add: slice_def)












lemma length_fresh_fields: "length (fresh_fields fs) = length fs"
  by (induction fs) auto



text \<open>The objects that \<^verbatim>\<open>generate\<close> returns are fresh, and \<^verbatim>\<open>set\<close> keeps the format of its
  object: the items that \<^verbatim>\<open>SecsVarArray.set\<close> builds satisfy the condition of \<open>valid_items\<close>.\<close>

lemma fresh_fields_odict_set:
  "fresh_fields (odict_set acc k v) = odict_set (fresh_fields acc) k (fresh v)"
  by (induction acc k v rule: odict_set.induct) auto

lemma fresh_generate:
  "generate d = Inr v \<Longrightarrow> fresh v = v"
  "generate_items fs acc = Inr flds \<Longrightarrow> fresh_fields acc = acc \<Longrightarrow> fresh_fields flds = flds"
proof (induction d and fs acc arbitrary: v and flds rule: generate_generate_items.induct)
qed (auto split: sum.splits simp: fresh_fields_odict_set)

lemma odict_set_same:
  "map_of data k = Some c \<Longrightarrow> fresh c' = fresh c \<Longrightarrow>
   fresh_fields (odict_set data k c') = fresh_fields data"
  by (induction data k c' rule: odict_set.induct) (auto split: if_splits)

lemma leaf_set_fresh:
  "SecsVarBinary_set c val v = Inr x \<Longrightarrow> fresh x = SecsVarBinary c []"
  "SecsVarBoolean_set c bval v = Inr x \<Longrightarrow> fresh x = SecsVarBoolean c []"
  "SecsVarString_set c sval v = Inr x \<Longrightarrow> fresh x = SecsVarString c []"
  "SecsVarNumber_set k c nval v = Inr x \<Longrightarrow> fresh x = SecsVarNumber k c []"
  by (auto simp: SecsVarBinary_set_def SecsVarBoolean_set_def SecsVarString_set_def
      SecsVarNumber_set_def split: sum.splits pyval.splits if_splits)

lemma set_fresh:
  "SecsVar_set obj v = Inr x \<Longrightarrow> fresh x = fresh obj"
  "set_positional data vs = Inr data' \<Longrightarrow> fresh_fields data' = fresh_fields data"
  "set_by_name data kvs = Inr data' \<Longrightarrow> fresh_fields data' = fresh_fields data"
  "set_items d vs = Inr xs \<Longrightarrow> True"
proof (induction obj v and data vs and data kvs and d vs arbitrary: x and data' and data' and xs
    rule: SecsVar_set_set_positional_set_by_name_set_items.induct)
qed (auto split: sum.splits if_splits option.splits simp: leaf_set_fresh odict_set_same)


lemma set_items_generated:
  "set_items d vs = Inr xs \<Longrightarrow> \<forall>x\<in>set xs. generate d = Inr (fresh x)"
proof (induction vs arbitrary: xs)
  case Nil
  then show ?case by simp
next
  case (Cons v vs)
  from Cons.prems obtain g y ys where g: "generate d = Inr g"
    and y: "SecsVar_set g v = Inr y" and ys: "set_items d vs = Inr ys" and xs: "xs = y # ys"
    by (auto split: sum.splits)
  have "fresh y = g"
    using set_fresh(1)[OF y] fresh_generate(1)[OF g] by simp
  then show ?case
    using Cons.IH[OF ys] g xs by simp
qed





end
